theory Spec2Isabelle
  imports Main
begin

section \<open>The ZFS volume driver (zfs/driver.go)\<close>

text \<open>
  The driver of \<^verbatim>\<open>zfs/driver.go\<close> maps volume names of a plugin host onto ZFS
  datasets. Every effect it has goes through the go-zfs library, which is not part of
  the repository. The library is therefore a parameter of the model: a record of
  functions over an arbitrary backend state \<open>'s\<close>. Whatever is proved of the driver
  holds for every library behaviour of that shape.
\<close>

subsection \<open>Data\<close>

text \<open>Go's \<^verbatim>\<open>error\<close> values. The constructors stand for the three places where the
  driver builds an error itself, and for the errors the library hands back.\<close>

datatype error =
    ZfsError string
      \<comment> \<open>an error returned by the library, with its message\<close>
  | NoDatasetsSpecified
      \<comment> \<open>\<^verbatim>\<open>fmt.Errorf("No datasets specified")\<close>\<close>
  | VolumeAlreadyExists string
      \<comment> \<open>\<^verbatim>\<open>fmt.Errorf("volume already exists: %s", datasetName)\<close>\<close>
  | FailedToCreateDataset string error
      \<comment> \<open>\<^verbatim>\<open>fmt.Errorf("failed to create dataset %s: %w", datasetName, err)\<close>\<close>

text \<open>\<^verbatim>\<open>zfs.Dataset\<close>: the driver reads only its name.\<close>

record Dataset =
  ds_Name :: string

text \<open>\<^verbatim>\<open>map[string]string\<close>, the options of a create request.\<close>

type_synonym Options = "string \<rightharpoonup> string"

text \<open>\<^verbatim>\<open>time.Time\<close> as seconds since the epoch; its formatting is left to the library
  record below.\<close>

type_synonym Time = nat

text \<open>\<^verbatim>\<open>volume.Volume\<close>. All three fields are Go strings; a field the code does not set
  holds the zero value, the empty string.\<close>

record Volume =
  Name :: string
  Mountpoint :: string
  CreatedAt :: string

text \<open>\<^verbatim>\<open>volume.CreateRequest\<close>.\<close>

record CreateRequest =
  cr_Name :: string
  cr_Options :: Options

text \<open>The requests of Get, Remove, Path, Mount and Unmount carry a name only.\<close>

record NameRequest =
  req_Name :: string

text \<open>\<^verbatim>\<open>ZfsDriver\<close>: the root datasets, in configuration order.\<close>

record ZfsDriver =
  rds :: "Dataset list"

subsection \<open>The library\<close>

text \<open>
  The functions of go-zfs the driver calls, and \<^verbatim>\<open>Time.Format(time.RFC3339)\<close>.
  The queries read the backend state; creation and destruction return a new one
  together with their result.
\<close>

record 's zfs_lib =
  zfs_DatasetExists :: "'s \<Rightarrow> string \<Rightarrow> bool"
  zfs_CreateDatasetRecursive :: "'s \<Rightarrow> string \<Rightarrow> Options \<Rightarrow> (error + Dataset) \<times> 's"
  zfs_GetDataset :: "'s \<Rightarrow> string \<Rightarrow> error + Dataset"
  zfs_DatasetList :: "'s \<Rightarrow> Dataset \<Rightarrow> error + Dataset list"
  zfs_GetMountpoint :: "'s \<Rightarrow> Dataset \<Rightarrow> error + string"
  zfs_GetCreation :: "'s \<Rightarrow> Dataset \<Rightarrow> error + Time"
  zfs_Destroy :: "'s \<Rightarrow> Dataset \<Rightarrow> error option \<times> 's"
  time_Format_RFC3339 :: "Time \<Rightarrow> string"

text \<open>One entry per call of the library, with its arguments.\<close>

datatype call =
    CallDatasetExists string
  | CallCreateDatasetRecursive string Options
  | CallGetDataset string
  | CallDatasetList Dataset
  | CallGetMountpoint Dataset
  | CallGetCreation Dataset
  | CallDestroy Dataset

text \<open>
  The world a driver operation runs in: the backend state, and the record of every
  library call made so far, each with the backend state it was made in. The record of
  calls is what a test double of the library would observe.
\<close>

record 's world =
  zfs :: 's
  calls :: "('s \<times> call) list"

definition logged :: "call \<Rightarrow> 's world \<Rightarrow> 's world" where
  "logged c w = w\<lparr>calls := calls w @ [(zfs w, c)]\<rparr>"

definition DatasetExists :: "'s zfs_lib \<Rightarrow> string \<Rightarrow> 's world \<Rightarrow> bool \<times> 's world" where
  "DatasetExists B name w = (zfs_DatasetExists B (zfs w) name, logged (CallDatasetExists name) w)"

definition CreateDatasetRecursive ::
  "'s zfs_lib \<Rightarrow> string \<Rightarrow> Options \<Rightarrow> 's world \<Rightarrow> (error + Dataset) \<times> 's world" where
  "CreateDatasetRecursive B name opts w =
     (case zfs_CreateDatasetRecursive B (zfs w) name opts of
        (r, s') \<Rightarrow> (r, (logged (CallCreateDatasetRecursive name opts) w)\<lparr>zfs := s'\<rparr>))"

definition GetDataset :: "'s zfs_lib \<Rightarrow> string \<Rightarrow> 's world \<Rightarrow> (error + Dataset) \<times> 's world" where
  "GetDataset B name w = (zfs_GetDataset B (zfs w) name, logged (CallGetDataset name) w)"

definition DatasetList ::
  "'s zfs_lib \<Rightarrow> Dataset \<Rightarrow> 's world \<Rightarrow> (error + Dataset list) \<times> 's world" where
  "DatasetList B ds w = (zfs_DatasetList B (zfs w) ds, logged (CallDatasetList ds) w)"

definition GetMountpoint :: "'s zfs_lib \<Rightarrow> Dataset \<Rightarrow> 's world \<Rightarrow> (error + string) \<times> 's world" where
  "GetMountpoint B ds w = (zfs_GetMountpoint B (zfs w) ds, logged (CallGetMountpoint ds) w)"

definition GetCreation :: "'s zfs_lib \<Rightarrow> Dataset \<Rightarrow> 's world \<Rightarrow> (error + Time) \<times> 's world" where
  "GetCreation B ds w = (zfs_GetCreation B (zfs w) ds, logged (CallGetCreation ds) w)"

definition Destroy :: "'s zfs_lib \<Rightarrow> Dataset \<Rightarrow> 's world \<Rightarrow> error option \<times> 's world" where
  "Destroy B ds w =
     (case zfs_Destroy B (zfs w) ds of
        (r, s') \<Rightarrow> (r, (logged (CallDestroy ds) w)\<lparr>zfs := s'\<rparr>))"


subsection \<open>Strings\<close>

text \<open>
  \<^verbatim>\<open>strings.Contains(s, "_")\<close> and \<^verbatim>\<open>strings.SplitN(s, "_", 2)\<close> for a separator of
  one byte: \<^verbatim>\<open>SplitN\<close> with \<^verbatim>\<open>n = 2\<close> cuts at the first occurrence of the separator
  and returns the text before it and the text after it, or the string alone when the
  separator does not occur.
\<close>

definition Contains :: "string \<Rightarrow> char \<Rightarrow> bool" where
  "Contains s c = (c \<in> set s)"

definition SplitN2 :: "string \<Rightarrow> char \<Rightarrow> string list" where
  "SplitN2 s c =
     (if c \<in> set s
      then [takeWhile (\<lambda>x. x \<noteq> c) s, tl (dropWhile (\<lambda>x. x \<noteq> c) s)]
      else [s])"

text \<open>\<^verbatim>\<open>fmt.Sprintf("%s/%s/%s", a, b, c)\<close>.\<close>

definition Sprintf3 :: "string \<Rightarrow> string \<Rightarrow> string \<Rightarrow> string" where
  "Sprintf3 a b c = a @ ''/'' @ b @ ''/'' @ c"

subsection \<open>NewZfsDriver\<close>



subsection \<open>Create\<close>

text \<open>The dataset name Create computes from the volume name (lines 51 to 75).\<close>

definition Create_datasetName :: "ZfsDriver \<Rightarrow> string \<Rightarrow> string" where
  "Create_datasetName zd volumeName =
     (if Contains volumeName CHR ''_'' then
        (let parts = SplitN2 volumeName CHR ''_'' in
         if length parts = 2 then
           (let projectName = parts ! 0;
                actualVolumeName = parts ! 1
            in if length (rds zd) > 0
               then Sprintf3 (ds_Name (rds zd ! 0)) projectName actualVolumeName
               else volumeName)
         else volumeName)
      else volumeName)"

definition Create :: "'s zfs_lib \<Rightarrow> ZfsDriver \<Rightarrow> CreateRequest \<Rightarrow> 's world \<Rightarrow> error option \<times> 's world" where
  "Create B zd req w =
     (let datasetName = Create_datasetName zd (cr_Name req) in
      case DatasetExists B datasetName w of
        (ex, w1) \<Rightarrow>
          if ex then (Some (VolumeAlreadyExists datasetName), w1)
          else (case CreateDatasetRecursive B datasetName (cr_Options req) w1 of
                  (Inl err, w2) \<Rightarrow> (Some (FailedToCreateDataset datasetName err), w2)
                | (Inr _, w2) \<Rightarrow> (None, w2)))"

subsection \<open>List\<close>

text \<open>The inner loop, over the datasets of one root, and the outer loop, over the roots.
  Both carry the volumes collected so far.\<close>

fun List_datasets ::
  "'s zfs_lib \<Rightarrow> Dataset list \<Rightarrow> Volume list \<Rightarrow> 's world \<Rightarrow> Volume list \<times> 's world" where
  "List_datasets B [] vols w = (vols, w)"
| "List_datasets B (ds # dsl) vols w =
     (case GetMountpoint B ds w of
        (Inl err, w1) \<Rightarrow> List_datasets B dsl vols w1
      | (Inr mp, w1) \<Rightarrow>
          List_datasets B dsl
            (vols @ [\<lparr>Name = ds_Name ds, Mountpoint = mp, CreatedAt = []\<rparr>]) w1)"

fun List_roots ::
  "'s zfs_lib \<Rightarrow> Dataset list \<Rightarrow> Volume list \<Rightarrow> 's world \<Rightarrow> (error + Volume list) \<times> 's world" where
  "List_roots B [] vols w = (Inr vols, w)"
| "List_roots B (rd # rest) vols w =
     (case DatasetList B rd w of
        (Inl err, w1) \<Rightarrow> (Inl err, w1)
      | (Inr dsl, w1) \<Rightarrow>
          (case List_datasets B dsl vols w1 of
             (vols1, w2) \<Rightarrow> List_roots B rest vols1 w2))"

text \<open>The response of List holds the volumes only.\<close>

definition List_volumes :: "'s zfs_lib \<Rightarrow> ZfsDriver \<Rightarrow> 's world \<Rightarrow> (error + Volume list) \<times> 's world" where
  "List_volumes B zd w = List_roots B (rds zd) [] w"

subsection \<open>Get, Path, Mount, Remove, Unmount\<close>

definition getVolume :: "'s zfs_lib \<Rightarrow> ZfsDriver \<Rightarrow> string \<Rightarrow> 's world \<Rightarrow> (error + Volume) \<times> 's world" where
  "getVolume B zd name w =
     (case GetDataset B name w of
        (Inl err, w1) \<Rightarrow> (Inl err, w1)
      | (Inr ds, w1) \<Rightarrow>
          (case GetMountpoint B ds w1 of
             (Inl err, w2) \<Rightarrow> (Inl err, w2)
           | (Inr mp, w2) \<Rightarrow>
               (case GetCreation B ds w2 of
                  (Inl err, w3) \<Rightarrow> (Inr \<lparr>Name = name, Mountpoint = mp, CreatedAt = []\<rparr>, w3)
                | (Inr ts, w3) \<Rightarrow>
                    (Inr \<lparr>Name = name, Mountpoint = mp,
                          CreatedAt = time_Format_RFC3339 B ts\<rparr>, w3))))"

definition getMP :: "'s zfs_lib \<Rightarrow> ZfsDriver \<Rightarrow> string \<Rightarrow> 's world \<Rightarrow> (error + string) \<times> 's world" where
  "getMP B zd name w =
     (case GetDataset B name w of
        (Inl err, w1) \<Rightarrow> (Inl err, w1)
      | (Inr ds, w1) \<Rightarrow> GetMountpoint B ds w1)"

text \<open>The responses of Get, Path and Mount hold one field each: the volume, or the
  mountpoint.\<close>

definition Get :: "'s zfs_lib \<Rightarrow> ZfsDriver \<Rightarrow> NameRequest \<Rightarrow> 's world \<Rightarrow> (error + Volume) \<times> 's world" where
  "Get B zd req w =
     (case getVolume B zd (req_Name req) w of
        (Inl err, w1) \<Rightarrow> (Inl err, w1)
      | (Inr v, w1) \<Rightarrow> (Inr v, w1))"

definition Remove :: "'s zfs_lib \<Rightarrow> ZfsDriver \<Rightarrow> NameRequest \<Rightarrow> 's world \<Rightarrow> error option \<times> 's world" where
  "Remove B zd req w =
     (case GetDataset B (req_Name req) w of
        (Inl err, w1) \<Rightarrow> (Some err, w1)
      | (Inr ds, w1) \<Rightarrow> Destroy B ds w1)"

definition Path :: "'s zfs_lib \<Rightarrow> ZfsDriver \<Rightarrow> NameRequest \<Rightarrow> 's world \<Rightarrow> (error + string) \<times> 's world" where
  "Path B zd req w =
     (case getMP B zd (req_Name req) w of
        (Inl err, w1) \<Rightarrow> (Inl err, w1)
      | (Inr mp, w1) \<Rightarrow> (Inr mp, w1))"

definition Mount :: "'s zfs_lib \<Rightarrow> ZfsDriver \<Rightarrow> NameRequest \<Rightarrow> 's world \<Rightarrow> (error + string) \<times> 's world" where
  "Mount B zd req w =
     (case getMP B zd (req_Name req) w of
        (Inl err, w1) \<Rightarrow> (Inl err, w1)
      | (Inr mp, w1) \<Rightarrow> (Inr mp, w1))"

definition Unmount :: "'s zfs_lib \<Rightarrow> ZfsDriver \<Rightarrow> NameRequest \<Rightarrow> 's world \<Rightarrow> error option \<times> 's world" where
  "Unmount B zd req w = (None, w)"

subsection \<open>A test double of the library\<close>

text \<open>
  A small in-memory stand-in for the library, used to run the driver on concrete inputs.
  Its state lists the datasets in creation order, each with its mountpoint and its
  creation time, either of which may be unavailable. Creating a dataset that exists
  fails, a new dataset is mounted under its own name, and looking up, reading or
  destroying a dataset that does not exist fails. The datasets of a root are those
  whose name starts with the name of the root.
\<close>

type_synonym fake_zfs = "(string \<times> string option \<times> Time option) list"

definition fake_lib :: "fake_zfs zfs_lib" where
  "fake_lib =
     \<lparr>zfs_DatasetExists = (\<lambda>s n. map_of s n \<noteq> None),
      zfs_CreateDatasetRecursive = (\<lambda>s n opts.
         if map_of s n \<noteq> None then (Inl (ZfsError ''dataset already exists''), s)
         else (Inr \<lparr>ds_Name = n\<rparr>, s @ [(n, Some (''/'' @ n), Some 0)])),
      zfs_GetDataset = (\<lambda>s n.
         if map_of s n \<noteq> None then Inr \<lparr>ds_Name = n\<rparr>
         else Inl (ZfsError ''dataset does not exist'')),
      zfs_DatasetList = (\<lambda>s d.
         Inr (map (\<lambda>e. \<lparr>ds_Name = fst e\<rparr>)
                (filter (\<lambda>e. take (length (ds_Name d)) (fst e) = ds_Name d) s))),
      zfs_GetMountpoint = (\<lambda>s d.
         case map_of s (ds_Name d) of
           Some (Some mp, _) \<Rightarrow> Inr mp
         | _ \<Rightarrow> Inl (ZfsError ''no mountpoint'')),
      zfs_GetCreation = (\<lambda>s d.
         case map_of s (ds_Name d) of
           Some (_, Some ts) \<Rightarrow> Inr ts
         | _ \<Rightarrow> Inl (ZfsError ''no creation time'')),
      zfs_Destroy = (\<lambda>s d.
         if map_of s (ds_Name d) \<noteq> None
         then (None, filter (\<lambda>e. fst e \<noteq> ds_Name d) s)
         else (Some (ZfsError ''dataset does not exist''), s)),
      time_Format_RFC3339 = (\<lambda>ts. ''1970-01-01T00:00:00Z'')\<rparr>"

text \<open>A driver with the single root \<^verbatim>\<open>tank\<close>, and a world in which only that root
  exists and no call has been made.\<close>

definition tank_driver :: ZfsDriver where
  "tank_driver = \<lparr>rds = [\<lparr>ds_Name = ''tank''\<rparr>]\<rparr>"

definition tank_world :: "fake_zfs world" where
  "tank_world = \<lparr>zfs = [(''tank'', Some ''/tank'', Some 0)], calls = []\<rparr>"

section \<open>Properties\<close>

subsection \<open>Splitting at the first separator\<close>

lemma takeWhile_first: "c \<notin> set g \<Longrightarrow> takeWhile (\<lambda>x. x \<noteq> c) (g @ c # m) = g"
  by (induction g) auto

lemma dropWhile_first: "c \<notin> set g \<Longrightarrow> dropWhile (\<lambda>x. x \<noteq> c) (g @ c # m) = c # m"
  by (induction g) auto

lemma SplitN2_first: "c \<notin> set g \<Longrightarrow> SplitN2 (g @ c # m) c = [g, m]"
  by (simp add: SplitN2_def takeWhile_first dropWhile_first)

subsection \<open>The dataset name of Create\<close>

lemma datasetName_no_separator:
  "CHR ''_'' \<notin> set name \<Longrightarrow> Create_datasetName zd name = name"
  by (simp add: Create_datasetName_def Contains_def)

lemma datasetName_grouped:
  "CHR ''_'' \<notin> set g \<Longrightarrow> rds zd \<noteq> [] \<Longrightarrow>
   Create_datasetName zd (g @ ''_'' @ m) = ds_Name (hd (rds zd)) @ ''/'' @ g @ ''/'' @ m"
  by (simp add: Create_datasetName_def Contains_def SplitN2_first Sprintf3_def hd_conv_nth)

lemma datasetName_no_root: "rds zd = [] \<Longrightarrow> Create_datasetName zd name = name"
  by (simp add: Create_datasetName_def Let_def)

text \<open>The library calls of Create: the existence check of the dataset name, then, if the
  dataset is absent, its recursive creation with the options of the request.\<close>

lemma Create_calls:
  "calls (snd (Create B zd req w)) =
     calls w @ (zfs w, CallDatasetExists (Create_datasetName zd (cr_Name req))) #
       (if zfs_DatasetExists B (zfs w) (Create_datasetName zd (cr_Name req)) then []
        else [(zfs w, CallCreateDatasetRecursive (Create_datasetName zd (cr_Name req))
                 (cr_Options req))])"
  by (simp add: Create_def DatasetExists_def CreateDatasetRecursive_def logged_def Let_def
      split: prod.splits sum.splits)

text \<open>
  Claim C7. For a requested name that does not contain the separator \<^verbatim>\<open>_\<close>, Create uses
  the name itself as the dataset name, whatever roots the driver has: the name computed
  is the requested one, and the library is asked whether that name exists and, if not,
  to create it.
\<close>

theorem Create_name_without_separator:
  assumes "CHR ''_'' \<notin> set (cr_Name req)"
  shows "Create_datasetName zd (cr_Name req) = cr_Name req \<and>
         calls (snd (Create B zd req w)) =
           calls w @ (zfs w, CallDatasetExists (cr_Name req)) #
             (if zfs_DatasetExists B (zfs w) (cr_Name req) then []
              else [(zfs w, CallCreateDatasetRecursive (cr_Name req) (cr_Options req))])"
  using assms by (simp add: Create_calls datasetName_no_separator)

text \<open>The name \<^verbatim>\<open>data\<close> with two roots configured.\<close>

theorem Create_name_without_separator_witness:
  "CHR ''_'' \<notin> set (cr_Name \<lparr>cr_Name = ''data'', cr_Options = Map.empty\<rparr>) \<and>
   Create_datasetName \<lparr>rds = [\<lparr>ds_Name = ''tank''\<rparr>, \<lparr>ds_Name = ''pool''\<rparr>]\<rparr> ''data'' = ''data'' \<and>
   calls (snd (Create fake_lib \<lparr>rds = [\<lparr>ds_Name = ''tank''\<rparr>, \<lparr>ds_Name = ''pool''\<rparr>]\<rparr>
                 \<lparr>cr_Name = ''data'', cr_Options = Map.empty\<rparr> tank_world)) =
     [(zfs tank_world, CallDatasetExists ''data''),
      (zfs tank_world, CallCreateDatasetRecursive ''data'' Map.empty)]"
  using Create_name_without_separator
    [of "\<lparr>cr_Name = ''data'', cr_Options = Map.empty\<rparr>"
        "\<lparr>rds = [\<lparr>ds_Name = ''tank''\<rparr>, \<lparr>ds_Name = ''pool''\<rparr>]\<rparr>" fake_lib tank_world]
  by (simp add: fake_lib_def tank_world_def)

text \<open>
  Claim C3. For a requested name \<^verbatim>\<open>proj_vol\<close> with both segments non-empty, where
  \<^verbatim>\<open>proj\<close> holds no separator (so the cut is at the first separator, and \<^verbatim>\<open>vol\<close> may
  hold further ones), and a driver whose first root is \<open>R\<close>, Create uses the dataset name
  \<^verbatim>\<open>R/proj/vol\<close>: it is the name computed, and the name of the existence check and of
  the creation.
\<close>

theorem Create_grouped_name:
  assumes "CHR ''_'' \<notin> set proj" and "proj \<noteq> []" and "vol \<noteq> []"
    and "rds zd = R # others"
    and "cr_Name req = proj @ ''_'' @ vol"
  shows "Create_datasetName zd (cr_Name req) = ds_Name R @ ''/'' @ proj @ ''/'' @ vol \<and>
         calls (snd (Create B zd req w)) =
           calls w @ (zfs w, CallDatasetExists (ds_Name R @ ''/'' @ proj @ ''/'' @ vol)) #
             (if zfs_DatasetExists B (zfs w) (ds_Name R @ ''/'' @ proj @ ''/'' @ vol) then []
              else [(zfs w, CallCreateDatasetRecursive (ds_Name R @ ''/'' @ proj @ ''/'' @ vol)
                       (cr_Options req))])"
proof -
  have "Create_datasetName zd (cr_Name req) = ds_Name R @ ''/'' @ proj @ ''/'' @ vol"
    using assms datasetName_grouped [of proj zd vol] by simp
  then show ?thesis
    by (simp add: Create_calls)
qed

text \<open>The name \<^verbatim>\<open>proj_db_data\<close>, whose member segment holds a separator, with the roots
  \<^verbatim>\<open>tank\<close> and \<^verbatim>\<open>pool\<close>.\<close>

theorem Create_grouped_name_witness:
  "CHR ''_'' \<notin> set ''proj'' \<and> ''proj'' \<noteq> [] \<and> ''db_data'' \<noteq> [] \<and>
   rds \<lparr>rds = [\<lparr>ds_Name = ''tank''\<rparr>, \<lparr>ds_Name = ''pool''\<rparr>]\<rparr> = \<lparr>ds_Name = ''tank''\<rparr> # [\<lparr>ds_Name = ''pool''\<rparr>] \<and>
   Create_datasetName \<lparr>rds = [\<lparr>ds_Name = ''tank''\<rparr>, \<lparr>ds_Name = ''pool''\<rparr>]\<rparr> ''proj_db_data''
     = ''tank/proj/db_data'' \<and>
   calls (snd (Create fake_lib \<lparr>rds = [\<lparr>ds_Name = ''tank''\<rparr>, \<lparr>ds_Name = ''pool''\<rparr>]\<rparr>
                 \<lparr>cr_Name = ''proj_db_data'', cr_Options = Map.empty\<rparr> tank_world)) =
     [(zfs tank_world, CallDatasetExists ''tank/proj/db_data''),
      (zfs tank_world, CallCreateDatasetRecursive ''tank/proj/db_data'' Map.empty)]"
  using Create_grouped_name
    [of "''proj''" "''db_data''" "\<lparr>rds = [\<lparr>ds_Name = ''tank''\<rparr>, \<lparr>ds_Name = ''pool''\<rparr>]\<rparr>"
        "\<lparr>ds_Name = ''tank''\<rparr>" "[\<lparr>ds_Name = ''pool''\<rparr>]"
        "\<lparr>cr_Name = ''proj_db_data'', cr_Options = Map.empty\<rparr>" fake_lib tank_world]
  by (simp add: fake_lib_def tank_world_def)

text \<open>
  Claim C1, as the code has it. A requested name whose group segment or member segment
  is empty is treated like every other name that contains the separator: with a first
  root \<open>R\<close> Create uses the dataset name \<^verbatim>\<open>R/proj/vol\<close>, one of the two segments
  being empty, and it uses the requested name itself only when the driver has no root.
\<close>

theorem Create_empty_segment:
  assumes "CHR ''_'' \<notin> set proj" and "proj = [] \<or> vol = []"
    and "cr_Name req = proj @ ''_'' @ vol"
  shows "Create_datasetName zd (cr_Name req) =
           (case rds zd of
              [] \<Rightarrow> cr_Name req
            | R # others \<Rightarrow> ds_Name R @ ''/'' @ proj @ ''/'' @ vol) \<and>
         calls (snd (Create B zd req w)) =
           calls w @ (zfs w, CallDatasetExists (Create_datasetName zd (cr_Name req))) #
             (if zfs_DatasetExists B (zfs w) (Create_datasetName zd (cr_Name req)) then []
              else [(zfs w, CallCreateDatasetRecursive (Create_datasetName zd (cr_Name req))
                       (cr_Options req))])"
proof (cases "rds zd")
  case Nil
  then show ?thesis
    by (simp add: Create_calls datasetName_no_root)
next
  case (Cons R others)
  then have "Create_datasetName zd (cr_Name req) = ds_Name R @ ''/'' @ proj @ ''/'' @ vol"
    using assms datasetName_grouped [of proj zd vol] by simp
  with Cons show ?thesis
    by (simp add: Create_calls)
qed

text \<open>The name \<^verbatim>\<open>_vol\<close> under the root \<^verbatim>\<open>tank\<close>.\<close>

theorem Create_empty_segment_witness:
  "CHR ''_'' \<notin> set [] \<and> ([] = [] \<or> ''vol'' = []) \<and>
   cr_Name \<lparr>cr_Name = ''_vol'', cr_Options = Map.empty\<rparr> = [] @ ''_'' @ ''vol'' \<and>
   Create_datasetName tank_driver ''_vol'' = ''tank//vol'' \<and>
   calls (snd (Create fake_lib tank_driver \<lparr>cr_Name = ''_vol'', cr_Options = Map.empty\<rparr> tank_world)) =
     [(zfs tank_world, CallDatasetExists ''tank//vol''),
      (zfs tank_world, CallCreateDatasetRecursive ''tank//vol'' Map.empty)]"
  using Create_empty_segment
    [of "[]" "''vol''" "\<lparr>cr_Name = ''_vol'', cr_Options = Map.empty\<rparr>" tank_driver
        fake_lib tank_world]
  by (simp add: tank_driver_def fake_lib_def tank_world_def)

text \<open>
  Claim C1 as it is stated, that such a name is used unchanged, fails: under the root
  \<^verbatim>\<open>tank\<close> the name \<^verbatim>\<open>_vol\<close> becomes \<^verbatim>\<open>tank//vol\<close> and the name \<^verbatim>\<open>proj_\<close> becomes
  \<^verbatim>\<open>tank/proj/\<close>, and these are the names Create hands to the library.
\<close>

theorem Create_empty_segment_counterexample:
  "Create_datasetName tank_driver ''_vol'' = ''tank//vol'' \<and>
   Create_datasetName tank_driver ''_vol'' \<noteq> ''_vol'' \<and>
   Create_datasetName tank_driver ''proj_'' = ''tank/proj/'' \<and>
   Create_datasetName tank_driver ''proj_'' \<noteq> ''proj_'' \<and>
   calls (snd (Create fake_lib tank_driver \<lparr>cr_Name = ''_vol'', cr_Options = Map.empty\<rparr> tank_world)) =
     [(zfs tank_world, CallDatasetExists ''tank//vol''),
      (zfs tank_world, CallCreateDatasetRecursive ''tank//vol'' Map.empty)]"
  by (simp add: Create_datasetName_def Contains_def SplitN2_def Sprintf3_def tank_driver_def
      Create_def DatasetExists_def CreateDatasetRecursive_def logged_def fake_lib_def
      tank_world_def Let_def)

subsection \<open>Create on an existing dataset\<close>

text \<open>
  Claim C4. When the dataset name Create computes already exists, Create returns the
  error "volume already exists" for that name; the only library call it makes is the
  existence check, and the backend state is the one it started in.
\<close>

theorem Create_existing_dataset:
  assumes "zfs_DatasetExists B (zfs w) (Create_datasetName zd (cr_Name req))"
  shows "Create B zd req w =
           (Some (VolumeAlreadyExists (Create_datasetName zd (cr_Name req))),
            w\<lparr>calls := calls w @ [(zfs w, CallDatasetExists (Create_datasetName zd (cr_Name req)))]\<rparr>)"
  using assms by (simp add: Create_def DatasetExists_def logged_def Let_def)

text \<open>Creating the volume \<^verbatim>\<open>tank\<close> where the dataset \<^verbatim>\<open>tank\<close> exists.\<close>

theorem Create_existing_dataset_witness:
  "zfs_DatasetExists fake_lib (zfs tank_world)
     (Create_datasetName tank_driver (cr_Name \<lparr>cr_Name = ''tank'', cr_Options = Map.empty\<rparr>)) \<and>
   Create fake_lib tank_driver \<lparr>cr_Name = ''tank'', cr_Options = Map.empty\<rparr> tank_world =
     (Some (VolumeAlreadyExists ''tank''),
      \<lparr>zfs = [(''tank'', Some ''/tank'', Some 0)],
       calls = [([(''tank'', Some ''/tank'', Some 0)], CallDatasetExists ''tank'')]\<rparr>)"
  using Create_existing_dataset
    [of fake_lib tank_world tank_driver "\<lparr>cr_Name = ''tank'', cr_Options = Map.empty\<rparr>"]
  by (simp add: fake_lib_def tank_world_def tank_driver_def Create_datasetName_def Contains_def)

subsection \<open>Unmount\<close>

text \<open>
  Claim C9. Unmount returns no error and leaves the world as it is: the backend state
  is unchanged and no library call is recorded.
\<close>

theorem Unmount_no_effect: "Unmount B zd req w = (None, w)"
  by (simp add: Unmount_def)

subsection \<open>Get without a creation time\<close>

text \<open>
  Claim C5. When the dataset of the requested name is found and its mountpoint is read,
  but reading its creation time fails, Get returns the volume with the requested name
  and that mountpoint, and with \<^verbatim>\<open>CreatedAt\<close> left at the empty string: the failure of
  the creation time does not fail Get.
\<close>

theorem Get_without_creation_time:
  assumes "zfs_GetDataset B (zfs w) (req_Name req) = Inr ds"
    and "zfs_GetMountpoint B (zfs w) ds = Inr mp"
    and "zfs_GetCreation B (zfs w) ds = Inl err"
  shows "fst (Get B zd req w) = Inr \<lparr>Name = req_Name req, Mountpoint = mp, CreatedAt = []\<rparr>"
  using assms
  by (simp add: Get_def getVolume_def GetDataset_def GetMountpoint_def GetCreation_def logged_def)

text \<open>A dataset with a mountpoint and no creation time.\<close>

theorem Get_without_creation_time_witness:
  "zfs_GetDataset fake_lib [(''tank/a'', Some ''/mnt/a'', None)] ''tank/a'' = Inr \<lparr>ds_Name = ''tank/a''\<rparr> \<and>
   zfs_GetMountpoint fake_lib [(''tank/a'', Some ''/mnt/a'', None)] \<lparr>ds_Name = ''tank/a''\<rparr> = Inr ''/mnt/a'' \<and>
   zfs_GetCreation fake_lib [(''tank/a'', Some ''/mnt/a'', None)] \<lparr>ds_Name = ''tank/a''\<rparr>
     = Inl (ZfsError ''no creation time'') \<and>
   fst (Get fake_lib tank_driver \<lparr>req_Name = ''tank/a''\<rparr>
          \<lparr>zfs = [(''tank/a'', Some ''/mnt/a'', None)], calls = []\<rparr>) =
     Inr \<lparr>Name = ''tank/a'', Mountpoint = ''/mnt/a'', CreatedAt = []\<rparr>"
  using Get_without_creation_time
    [of fake_lib "\<lparr>zfs = [(''tank/a'', Some ''/mnt/a'', None)], calls = []\<rparr>"
        "\<lparr>req_Name = ''tank/a''\<rparr>" "\<lparr>ds_Name = ''tank/a''\<rparr>" "''/mnt/a''"
        "ZfsError ''no creation time''" tank_driver]
  by (simp add: fake_lib_def)

subsection \<open>Create, then Get\<close>

text \<open>
  Claim C2. A successful Create followed by Get on the same name should return a volume
  whose name is the dataset name of Create and whose mountpoint is not empty. The code
  does not do so for a name that Create regroups: under the root \<^verbatim>\<open>tank\<close>, Create of
  \<^verbatim>\<open>proj_vol\<close> succeeds and makes the dataset \<^verbatim>\<open>tank/proj/vol\<close>, and Get of
  \<^verbatim>\<open>proj_vol\<close> then looks up the dataset \<^verbatim>\<open>proj_vol\<close> and fails, as do Path, Mount
  and Remove. The dataset is there: Get of \<^verbatim>\<open>tank/proj/vol\<close> returns it, with its
  mountpoint.
\<close>

theorem Create_then_Get_grouped_name:
  "Create_datasetName tank_driver ''proj_vol'' = ''tank/proj/vol'' \<and>
   fst (Create fake_lib tank_driver \<lparr>cr_Name = ''proj_vol'', cr_Options = Map.empty\<rparr> tank_world) = None \<and>
   fst (Get fake_lib tank_driver \<lparr>req_Name = ''proj_vol''\<rparr>
          (snd (Create fake_lib tank_driver \<lparr>cr_Name = ''proj_vol'', cr_Options = Map.empty\<rparr>
                  tank_world))) =
     Inl (ZfsError ''dataset does not exist'') \<and>
   fst (Path fake_lib tank_driver \<lparr>req_Name = ''proj_vol''\<rparr>
          (snd (Create fake_lib tank_driver \<lparr>cr_Name = ''proj_vol'', cr_Options = Map.empty\<rparr>
                  tank_world))) =
     Inl (ZfsError ''dataset does not exist'') \<and>
   fst (Mount fake_lib tank_driver \<lparr>req_Name = ''proj_vol''\<rparr>
          (snd (Create fake_lib tank_driver \<lparr>cr_Name = ''proj_vol'', cr_Options = Map.empty\<rparr>
                  tank_world))) =
     Inl (ZfsError ''dataset does not exist'') \<and>
   fst (Remove fake_lib tank_driver \<lparr>req_Name = ''proj_vol''\<rparr>
          (snd (Create fake_lib tank_driver \<lparr>cr_Name = ''proj_vol'', cr_Options = Map.empty\<rparr>
                  tank_world))) =
     Some (ZfsError ''dataset does not exist'') \<and>
   fst (Get fake_lib tank_driver \<lparr>req_Name = ''tank/proj/vol''\<rparr>
          (snd (Create fake_lib tank_driver \<lparr>cr_Name = ''proj_vol'', cr_Options = Map.empty\<rparr>
                  tank_world))) =
     Inr \<lparr>Name = ''tank/proj/vol'', Mountpoint = ''/tank/proj/vol'',
          CreatedAt = ''1970-01-01T00:00:00Z''\<rparr>"
  by (simp add: Create_datasetName_def Contains_def SplitN2_def Sprintf3_def tank_driver_def
      Create_def DatasetExists_def CreateDatasetRecursive_def logged_def fake_lib_def
      tank_world_def Get_def getVolume_def Path_def Mount_def getMP_def Remove_def
      GetDataset_def GetMountpoint_def GetCreation_def Let_def)

subsection \<open>The lookups of Get, Path, Mount and Remove\<close>

text \<open>
  Claim C10. Get, Path, Mount and Remove look the dataset up under the requested name
  as it stands: the first library call of each is \<^verbatim>\<open>GetDataset\<close> on that name, and
  the calls that follow are made on the dataset the lookup returned. The dataset name
  of Create plays no part. A volume returned by Get has the requested name as its name.
\<close>

theorem lookups_by_requested_name:
  "calls (snd (Get B zd req w)) =
     calls w @ map (Pair (zfs w))
       (CallGetDataset (req_Name req) #
        (case zfs_GetDataset B (zfs w) (req_Name req) of
           Inl err \<Rightarrow> []
         | Inr ds \<Rightarrow> CallGetMountpoint ds #
             (case zfs_GetMountpoint B (zfs w) ds of
                Inl err \<Rightarrow> []
              | Inr mp \<Rightarrow> [CallGetCreation ds]))) \<and>
   calls (snd (Path B zd req w)) =
     calls w @ map (Pair (zfs w))
       (CallGetDataset (req_Name req) #
        (case zfs_GetDataset B (zfs w) (req_Name req) of
           Inl err \<Rightarrow> []
         | Inr ds \<Rightarrow> [CallGetMountpoint ds])) \<and>
   calls (snd (Mount B zd req w)) =
     calls w @ map (Pair (zfs w))
       (CallGetDataset (req_Name req) #
        (case zfs_GetDataset B (zfs w) (req_Name req) of
           Inl err \<Rightarrow> []
         | Inr ds \<Rightarrow> [CallGetMountpoint ds])) \<and>
   calls (snd (Remove B zd req w)) =
     calls w @ map (Pair (zfs w))
       (CallGetDataset (req_Name req) #
        (case zfs_GetDataset B (zfs w) (req_Name req) of
           Inl err \<Rightarrow> []
         | Inr ds \<Rightarrow> [CallDestroy ds])) \<and>
   (\<forall>v. fst (Get B zd req w) = Inr v \<longrightarrow> Name v = req_Name req)"
  by (auto simp: Get_def getVolume_def Path_def Mount_def getMP_def Remove_def GetDataset_def
      GetMountpoint_def GetCreation_def Destroy_def logged_def split: sum.splits prod.splits)

text \<open>
  The name \<^verbatim>\<open>proj_vol\<close> under the root \<^verbatim>\<open>tank\<close>, in a world that has a dataset of
  that very name: Get looks up \<^verbatim>\<open>proj_vol\<close> and returns a volume of that name, where
  Create would use \<^verbatim>\<open>tank/proj/vol\<close>.
\<close>

theorem lookups_by_requested_name_witness:
  "fst (Get fake_lib tank_driver \<lparr>req_Name = ''proj_vol''\<rparr>
          \<lparr>zfs = [(''proj_vol'', Some ''/mnt/pv'', Some 7)], calls = []\<rparr>) =
     Inr \<lparr>Name = ''proj_vol'', Mountpoint = ''/mnt/pv'', CreatedAt = ''1970-01-01T00:00:00Z''\<rparr> \<and>
   Name \<lparr>Name = ''proj_vol'', Mountpoint = ''/mnt/pv'', CreatedAt = ''1970-01-01T00:00:00Z''\<rparr>
     = req_Name \<lparr>req_Name = ''proj_vol''\<rparr> \<and>
   calls (snd (Get fake_lib tank_driver \<lparr>req_Name = ''proj_vol''\<rparr>
                 \<lparr>zfs = [(''proj_vol'', Some ''/mnt/pv'', Some 7)], calls = []\<rparr>)) =
     [([(''proj_vol'', Some ''/mnt/pv'', Some 7)], CallGetDataset ''proj_vol''),
      ([(''proj_vol'', Some ''/mnt/pv'', Some 7)], CallGetMountpoint \<lparr>ds_Name = ''proj_vol''\<rparr>),
      ([(''proj_vol'', Some ''/mnt/pv'', Some 7)], CallGetCreation \<lparr>ds_Name = ''proj_vol''\<rparr>)] \<and>
   Create_datasetName tank_driver ''proj_vol'' = ''tank/proj/vol''"
  using lookups_by_requested_name
    [of fake_lib tank_driver "\<lparr>req_Name = ''proj_vol''\<rparr>"
        "\<lparr>zfs = [(''proj_vol'', Some ''/mnt/pv'', Some 7)], calls = []\<rparr>"]
  by (simp add: fake_lib_def Get_def getVolume_def GetDataset_def GetMountpoint_def
      GetCreation_def logged_def Create_datasetName_def Contains_def SplitN2_def Sprintf3_def
      tank_driver_def)

subsection \<open>The volumes of List\<close>

text \<open>The inner loop reads the mountpoint of every dataset, in order, and keeps the
  datasets whose mountpoint it could read.\<close>

lemma List_datasets_result:
  "List_datasets B dsl vols w =
     (vols @ concat (map (\<lambda>ds. case zfs_GetMountpoint B (zfs w) ds of
                                  Inl err \<Rightarrow> []
                                | Inr mp \<Rightarrow> [\<lparr>Name = ds_Name ds, Mountpoint = mp, CreatedAt = []\<rparr>]) dsl),
      w\<lparr>calls := calls w @ map (\<lambda>ds. (zfs w, CallGetMountpoint ds)) dsl\<rparr>)"
proof (induction dsl arbitrary: vols w)
  case Nil
  show ?case by simp
next
  case (Cons ds dsl)
  show ?case
    by (cases "zfs_GetMountpoint B (zfs w) ds")
       (simp_all add: GetMountpoint_def logged_def Cons.IH)
qed

lemma List_roots_result:
  assumes "list_all2 (\<lambda>rd dsl. zfs_DatasetList B s rd = Inr dsl) roots dsls"
    and "zfs w = s"
  shows "List_roots B roots vols w =
     (Inr (vols @ concat (map (\<lambda>dsl. concat (map (\<lambda>ds. case zfs_GetMountpoint B s ds of
                                  Inl err \<Rightarrow> []
                                | Inr mp \<Rightarrow> [\<lparr>Name = ds_Name ds, Mountpoint = mp, CreatedAt = []\<rparr>]) dsl)) dsls)),
      w\<lparr>calls := calls w @ concat (map (\<lambda>(rd, dsl). (s, CallDatasetList rd) #
                                   map (\<lambda>ds. (s, CallGetMountpoint ds)) dsl) (zip roots dsls))\<rparr>)"
  using assms
proof (induction roots dsls arbitrary: vols w rule: list_all2_induct)
  case Nil
  then show ?case by simp
next
  case (Cons rd dsl roots dsls)
  then show ?case
    by (simp add: DatasetList_def logged_def List_datasets_result)
qed

text \<open>
  Claim C6. When the datasets of every root can be enumerated, List returns the volumes
  of all datasets whose mountpoint can be read, root after root in configuration order
  and in the order of each enumeration; a dataset whose mountpoint cannot be read is
  left out, and the listing goes on with the next dataset.
\<close>

theorem List_skips_failed_mountpoints:
  assumes "list_all2 (\<lambda>rd dsl. zfs_DatasetList B (zfs w) rd = Inr dsl) (rds zd) dsls"
  shows "fst (List_volumes B zd w) =
     Inr (concat (map (\<lambda>dsl. concat (map (\<lambda>ds. case zfs_GetMountpoint B (zfs w) ds of
                                  Inl err \<Rightarrow> []
                                | Inr mp \<Rightarrow> [\<lparr>Name = ds_Name ds, Mountpoint = mp, CreatedAt = []\<rparr>]) dsl)) dsls))"
  using List_roots_result [OF assms refl, of "[]"] by (simp add: List_volumes_def)

text \<open>Two roots; the mountpoint of \<^verbatim>\<open>tank/a\<close> cannot be read.\<close>

theorem List_skips_failed_mountpoints_witness:
  "zfs_DatasetList fake_lib
     [(''tank'', Some ''/tank'', Some 0), (''tank/a'', None, Some 1),
      (''pool'', Some ''/pool'', Some 2), (''tank/b'', Some ''/mnt/b'', None)]
     \<lparr>ds_Name = ''tank''\<rparr> =
     Inr [\<lparr>ds_Name = ''tank''\<rparr>, \<lparr>ds_Name = ''tank/a''\<rparr>, \<lparr>ds_Name = ''tank/b''\<rparr>] \<and>
   zfs_DatasetList fake_lib
     [(''tank'', Some ''/tank'', Some 0), (''tank/a'', None, Some 1),
      (''pool'', Some ''/pool'', Some 2), (''tank/b'', Some ''/mnt/b'', None)]
     \<lparr>ds_Name = ''pool''\<rparr> =
     Inr [\<lparr>ds_Name = ''pool''\<rparr>] \<and>
   fst (List_volumes fake_lib \<lparr>rds = [\<lparr>ds_Name = ''tank''\<rparr>, \<lparr>ds_Name = ''pool''\<rparr>]\<rparr>
          \<lparr>zfs = [(''tank'', Some ''/tank'', Some 0), (''tank/a'', None, Some 1),
                  (''pool'', Some ''/pool'', Some 2), (''tank/b'', Some ''/mnt/b'', None)],
           calls = []\<rparr>) =
     Inr [\<lparr>Name = ''tank'', Mountpoint = ''/tank'', CreatedAt = []\<rparr>,
          \<lparr>Name = ''tank/b'', Mountpoint = ''/mnt/b'', CreatedAt = []\<rparr>,
          \<lparr>Name = ''pool'', Mountpoint = ''/pool'', CreatedAt = []\<rparr>]"
  using List_skips_failed_mountpoints
    [of fake_lib
        "\<lparr>zfs = [(''tank'', Some ''/tank'', Some 0), (''tank/a'', None, Some 1),
                (''pool'', Some ''/pool'', Some 2), (''tank/b'', Some ''/mnt/b'', None)],
         calls = []\<rparr>"
        "\<lparr>rds = [\<lparr>ds_Name = ''tank''\<rparr>, \<lparr>ds_Name = ''pool''\<rparr>]\<rparr>"
        "[[\<lparr>ds_Name = ''tank''\<rparr>, \<lparr>ds_Name = ''tank/a''\<rparr>, \<lparr>ds_Name = ''tank/b''\<rparr>],
          [\<lparr>ds_Name = ''pool''\<rparr>]]"]
  by (simp add: fake_lib_def)

subsection \<open>The roots of NewZfsDriver\<close>






end
